theory Spec2Isabelle
  imports Complex_Main
begin

section \<open>Python values and exceptions\<close>

text \<open>
  The engine is dynamically typed Python. Exceptions are values of \<open>exn\<close>; a function
  that may raise returns \<open>exn + 'a\<close> with \<open>Inl\<close> for the raised exception.
  \<open>RetryError e\<close> is the exception the retry library raises when it gives up; it
  carries the exception of the last attempt.
\<close>

datatype exn =
    StopIteration
  | RuntimeError
  | AssertionError
  | ValueError
  | AttributeError
  | KeyError
  | IndexError
  | TypeError
  | UserError string
  | RetryError exn

text \<open>
  Values that travel through queues. \<open>PExc StopIteration\<close> is the instance
  \<^verbatim>\<open>StopIteration()\<close> that \<^verbatim>\<open>Node.end\<close> puts into the queue (the stop token).
\<close>

datatype pyval =
    PNone
  | PBool bool
  | PInt int
  | PStr string
  | PTuple "pyval list"
  | PList "pyval list"
  | PExc exn
  | LabelData pyval pyval
  | NodeProcessingError pyval string exn string

text \<open>Python truthiness of an optional number: \<^verbatim>\<open>None\<close> and \<^verbatim>\<open>0\<close> are falsy.\<close>

definition truthy :: "int option \<Rightarrow> bool" where
  "truthy x = (case x of None \<Rightarrow> False | Some v \<Rightarrow> v \<noteq> 0)"

text \<open>
  A \<^verbatim>\<open>dict\<close> is an association list with distinct keys, in insertion order.
  \<^verbatim>\<open>d[k] = v\<close> replaces the value in place when the key exists and appends otherwise.
\<close>

fun dict_set :: "'k \<Rightarrow> 'v \<Rightarrow> ('k \<times> 'v) list \<Rightarrow> ('k \<times> 'v) list" where
  "dict_set k v [] = [(k, v)]"
| "dict_set k v ((k', v') # d) =
     (if k = k' then (k, v) # d else (k', v') # dict_set k v d)"

definition dict_values :: "('k \<times> 'v) list \<Rightarrow> 'v list" where
  "dict_values d = map snd d"

section \<open>Global configuration (\<^verbatim>\<open>async_dfd/__init__.py\<close>)\<close>

text \<open>
  \<^verbatim>\<open>ASYNC_DFD_CONFIG\<close> is the JSON object read from the configuration file, or the empty
  dict when the file does not exist. The argument is the file's content, \<open>None\<close> when
  opening it raises \<^verbatim>\<open>FileNotFoundError\<close>.
\<close>

type_synonym config = "string \<rightharpoonup> int"

definition ASYNC_DFD_CONFIG :: "config option \<Rightarrow> config" where
  "ASYNC_DFD_CONFIG file = (case file of Some c \<Rightarrow> c | None \<Rightarrow> Map.empty)"

text \<open>
  \<^verbatim>\<open>d.get(key, default)\<close> with a number as default, and \<^verbatim>\<open>d.get(key, None)\<close>.
\<close>

definition dict_get :: "config \<Rightarrow> string \<Rightarrow> int \<Rightarrow> int" where
  "dict_get d k dflt = (case d k of Some v \<Rightarrow> v | None \<Rightarrow> dflt)"

definition dict_get_None :: "config \<Rightarrow> string \<Rightarrow> int option" where
  "dict_get_None d k = d k"

section \<open>Node (\<^verbatim>\<open>async_dfd/node/node.py\<close>)\<close>

text \<open>
  Decorators are compared by identity (\<^verbatim>\<open>decorator in self.proc_decorators\<close>), so they are
  names: the two the engine treats specially, and any other one, numbered.
\<close>

datatype decorator =
    label_proc_decorator
  | skip_data_decorator
  | Decorator nat

text \<open>
  The stage methods \<^verbatim>\<open>_get_one_data\<close>, \<^verbatim>\<open>_proc_data\<close> and \<^verbatim>\<open>_put_data\<close> after
  \<^verbatim>\<open>f = decorator(f)\<close> has been applied some number of times: \<open>Wrapped d f\<close> is
  \<^verbatim>\<open>d(f)\<close>, so the outermost constructor is the decorator applied last.
\<close>

datatype callable = Undecorated | Wrapped decorator callable

text \<open>
  A worker is a greenlet running \<^verbatim>\<open>_func_wrapper(task_id)\<close>; it is dead once that call
  has returned.
\<close>

datatype greenlet = Greenlet (task_id: nat) (dead: bool)

definition spawn :: "nat \<Rightarrow> greenlet" where
  "spawn i = Greenlet i False"

text \<open>
  The generator object \<^verbatim>\<open>self._get_data()\<close>. \<open>Suspended ds\<close>: created or suspended at a
  \<^verbatim>\<open>yield\<close> of the inner generator, which still has \<open>ds\<close> to yield. \<open>Finished\<close>: its
  body has returned or raised.
\<close>

datatype generator = Suspended "pyval list" | Finished

text \<open>
  Nodes are objects; other nodes refer to them by reference, here a number.
  \<open>criteria\<close> receives the reference of the source node and the data.
  \<open>get_data_generator\<close> is \<open>None\<close> until \<^verbatim>\<open>_spawn_workers\<close> sets the attribute.
\<close>

type_synonym ref = nat

record node =
  name :: string
  timeout :: "int option"
  worker_num :: int
  queue_size :: int
  src_queue :: "pyval list"
  get_decorators :: "decorator list"
  proc_decorators :: "decorator list"
  put_decorators :: "decorator list"
  get_one_data_f :: callable
  proc_data_f :: callable
  put_data_f :: callable
  criteria :: "ref \<Rightarrow> pyval \<Rightarrow> bool"
  is_data_iterable :: bool
  no_output :: bool
  tasks :: "greenlet list"
  executing_data_queue :: "pyval list"
  get_data_generator :: "generator option"
  dst_nodes :: "(string \<times> ref) list"
  src_nodes :: "(string \<times> ref) list"
  is_start :: bool

text \<open>
  \<^verbatim>\<open>Node.__init__\<close>. An argument left out is \<open>None\<close>. The three settings are chosen by
  \<^verbatim>\<open>x if x else ASYNC_DFD_CONFIG.get(key, default)\<close>.
\<close>

definition default_criteria :: "ref \<Rightarrow> pyval \<Rightarrow> bool" where
  "default_criteria src_node data = True"

definition Node_init ::
  "config \<Rightarrow> string \<Rightarrow> (ref \<Rightarrow> pyval \<Rightarrow> bool) \<Rightarrow> int option \<Rightarrow> int option \<Rightarrow> bool \<Rightarrow> bool
    \<Rightarrow> int option \<Rightarrow> node" where
  "Node_init cfg proc_func_name crit worker_num_arg queue_size_arg no_output_arg
      is_data_iterable_arg timeout_arg =
    \<lparr> name = proc_func_name,
      timeout = (if truthy timeout_arg then timeout_arg else dict_get_None cfg ''timeout''),
      worker_num =
        (if truthy worker_num_arg then the worker_num_arg else dict_get cfg ''worker_num'' 10),
      queue_size =
        (if truthy queue_size_arg then the queue_size_arg else dict_get cfg ''queue_size'' 10),
      src_queue = [],
      get_decorators = [],
      proc_decorators = [],
      put_decorators = [],
      get_one_data_f = Undecorated,
      proc_data_f = Undecorated,
      put_data_f = Undecorated,
      criteria = crit,
      is_data_iterable = is_data_iterable_arg,
      no_output = no_output_arg,
      tasks = [],
      executing_data_queue = [],
      get_data_generator = None,
      dst_nodes = [],
      src_nodes = [],
      is_start = False \<rparr>"

text \<open>
  \<^verbatim>\<open>add_get_decorator\<close>, \<^verbatim>\<open>add_proc_decorator\<close>, \<^verbatim>\<open>add_put_decorator\<close>: append to the list.
\<close>

definition add_get_decorator :: "decorator \<Rightarrow> node \<Rightarrow> node" where
  "add_get_decorator d n = n\<lparr>get_decorators := get_decorators n @ [d]\<rparr>"

definition add_proc_decorator :: "decorator \<Rightarrow> node \<Rightarrow> node" where
  "add_proc_decorator d n = n\<lparr>proc_decorators := proc_decorators n @ [d]\<rparr>"

definition add_put_decorator :: "decorator \<Rightarrow> node \<Rightarrow> node" where
  "add_put_decorator d n = n\<lparr>put_decorators := put_decorators n @ [d]\<rparr>"

text \<open>\<^verbatim>\<open>Node._validate_destinations\<close>: a failed \<^verbatim>\<open>assert\<close> raises \<^verbatim>\<open>AssertionError\<close>.\<close>

definition validate_destinations :: "node \<Rightarrow> exn + unit" where
  "validate_destinations n =
    (if no_output n
     then (if length (dst_nodes n) = 0 then Inr () else Inl AssertionError)
     else (if length (dst_nodes n) > 0 then Inr () else Inl AssertionError))"

text \<open>
  \<^verbatim>\<open>Node._rearrange_proc_decorator\<close>. \<^verbatim>\<open>set_top_decorator\<close> tests membership in
  \<^verbatim>\<open>self.proc_decorators\<close>, then removes the first occurrence from \<^verbatim>\<open>new_decorators\<close>
  and appends the decorator again. \<^verbatim>\<open>set_bottom_decorator\<close> is never called.
\<close>

definition set_top_decorator :: "decorator list \<Rightarrow> decorator \<Rightarrow> decorator list \<Rightarrow> decorator list" where
  "set_top_decorator registered d new_decorators =
    (if d \<in> set registered then remove1 d new_decorators @ [d] else new_decorators)"

definition rearrange_proc_decorator :: "node \<Rightarrow> node" where
  "rearrange_proc_decorator n =
    (let new_decorators = fold (\<lambda>d acc. acc @ [d]) (proc_decorators n) [];
         new_decorators = set_top_decorator (proc_decorators n) label_proc_decorator new_decorators;
         new_decorators = set_top_decorator (proc_decorators n) skip_data_decorator new_decorators
     in n\<lparr>proc_decorators := new_decorators\<rparr>)"

text \<open>\<^verbatim>\<open>Node._setup_decorators\<close>: each list is applied front to back, \<^verbatim>\<open>f = decorator(f)\<close>.\<close>

definition setup_decorators :: "node \<Rightarrow> node" where
  "setup_decorators n =
    (let n = rearrange_proc_decorator n;
         n = n\<lparr>get_one_data_f := fold Wrapped (get_decorators n) (get_one_data_f n)\<rparr>;
         n = n\<lparr>proc_data_f := fold Wrapped (proc_decorators n) (proc_data_f n)\<rparr>;
         n = n\<lparr>put_data_f := fold Wrapped (put_decorators n) (put_data_f n)\<rparr>
     in n)"

text \<open>
  \<^verbatim>\<open>Node._spawn_workers\<close>: one worker per \<^verbatim>\<open>i in range(self.worker_num)\<close>, appended to
  \<^verbatim>\<open>self.tasks\<close>; \<^verbatim>\<open>range\<close> of a number below 1 is empty. Then the generator is
  created and the node marked as started.
\<close>

definition py_range :: "int \<Rightarrow> nat list" where
  "py_range k = [0..<nat k]"

definition spawn_workers :: "node \<Rightarrow> node" where
  "spawn_workers n =
    (let n = fold (\<lambda>i n. n\<lparr>tasks := tasks n @ [spawn i]\<rparr>) (py_range (worker_num n)) n;
         n = n\<lparr>get_data_generator := Some (Suspended [])\<rparr>
     in n\<lparr>is_start := True\<rparr>)"

text \<open>
  \<^verbatim>\<open>Node.start\<close>. The result is the returned task list or the raised exception, with the
  node as the call leaves it. \<^verbatim>\<open>super().start()\<close> belongs to the interface module,
  outside the files verified here; \<^verbatim>\<open>_spawn_workers\<close> has already set the running
  flag.
\<close>

definition start :: "node \<Rightarrow> (exn + greenlet list) \<times> node" where
  "start n =
    (case validate_destinations n of
       Inl e \<Rightarrow> (Inl e, n)
     | Inr _ \<Rightarrow>
         (let n = setup_decorators n;
              n = spawn_workers n
          in (Inr (tasks n), n)))"

section \<open>Routing between nodes\<close>

text \<open>
  The objects of the program: a reference denotes a node. The queue of a node is
  \<^verbatim>\<open>Queue(self.queue_size)\<close>, a bounded FIFO: gevent takes a size of 0 or less as
  unbounded, and otherwise the queue is full once it holds \<open>queue_size\<close> items.
\<close>

definition queue_full :: "node \<Rightarrow> bool" where
  "queue_full n = (0 < queue_size n \<and> queue_size n \<le> int (length (src_queue n)))"

text \<open>
  \<^verbatim>\<open>Node.put\<close> is \<^verbatim>\<open>self.src_queue.put(data)\<close>. On a full queue the call suspends the
  caller until the queue has room. \<open>put\<close> is the append the call makes when it goes
  through; who is suspended, and what runs meanwhile, is the subject of the greenlet
  steps further down, where every append is guarded by \<open>queue_full\<close>.
\<close>

type_synonym heap = "ref \<Rightarrow> node"

definition put :: "ref \<Rightarrow> pyval \<Rightarrow> heap \<Rightarrow> heap" where
  "put self data h = h(self := (h self)\<lparr>src_queue := src_queue (h self) @ [data]\<rparr>)"


text \<open>
  \<^verbatim>\<open>Node._put_data\<close>: every destination in turn; the destination's own \<open>criteria\<close>
  decides, called with the source node and the data.
\<close>

definition put_data :: "ref \<Rightarrow> pyval \<Rightarrow> heap \<Rightarrow> heap" where
  "put_data self data h =
    fold (\<lambda>node h. if criteria (h node) self data then put node data h else h)
      (dict_values (dst_nodes (h self))) h"

section \<open>The transform stage: retry and conversion of failures\<close>

text \<open>
  The user's function may fail on one call and succeed on the next, so its outcome depends
  on the input and on the number of the attempt (counted from 1, as the retry library
  does).
\<close>

type_synonym proc_func = "nat \<Rightarrow> pyval \<Rightarrow> exn + pyval"

text \<open>
  \<^verbatim>\<open>error_wrapper\<close>, the function under \<^verbatim>\<open>@retry\<close>: it returns the result, and both
  of its handlers re-raise what \<^verbatim>\<open>func\<close> raised (the second one writes two log lines
  first).
\<close>

definition error_wrapper :: "proc_func \<Rightarrow> nat \<Rightarrow> pyval \<Rightarrow> exn + pyval" where
  "error_wrapper func attempt_number data =
    (case func attempt_number data of
       Inr result \<Rightarrow> Inr result
     | Inl e \<Rightarrow> Inl e)"

text \<open>
  \<^verbatim>\<open>wait_exponential_jitter(max=10)\<close> with the library's defaults \<^verbatim>\<open>initial=1\<close>,
  \<^verbatim>\<open>exp_base=2\<close>, \<^verbatim>\<open>jitter=1\<close>: the wait after attempt \<open>k\<close> is
  \<^verbatim>\<open>max(0, min(initial * exp_base ** (k - 1) + random.uniform(0, jitter), max))\<close>.
  The random draw is the argument \<open>u\<close>.
\<close>

definition wait_exponential_jitter :: "real \<Rightarrow> real \<Rightarrow> nat \<Rightarrow> real" where
  "wait_exponential_jitter mx u attempt_number =
     max 0 (min (1 * 2 ^ (attempt_number - 1) + u) mx)"

text \<open>
  The retry loop configured by \<^verbatim>\<open>stop_after_attempt(5)\<close>,
  \<^verbatim>\<open>retry_if_not_exception_type(StopIteration)\<close> and the wait above. After each attempt:
  a result is returned; \<^verbatim>\<open>StopIteration\<close> is not retried and propagates; any other
  exception, once the attempt number has reached 5, is given up on with \<^verbatim>\<open>RetryError\<close>;
  otherwise the loop sleeps and attempts again. Besides the outcome, the function returns
  the number of attempts made and the sleeps taken, in order.
\<close>

function retrying ::
  "(nat \<Rightarrow> real) \<Rightarrow> (nat \<Rightarrow> exn + pyval) \<Rightarrow> nat \<Rightarrow> real list \<Rightarrow> (exn + pyval) \<times> nat \<times> real list" where
  "retrying jitter fn attempt_number slept =
    (case fn attempt_number of
       Inr result \<Rightarrow> (Inr result, attempt_number, slept)
     | Inl e \<Rightarrow>
         if e = StopIteration then (Inl e, attempt_number, slept)
         else if attempt_number \<ge> 5 then (Inl (RetryError e), attempt_number, slept)
         else retrying jitter fn (attempt_number + 1)
                (slept @ [wait_exponential_jitter 10 (jitter attempt_number) attempt_number]))"
  by pat_completeness auto
termination
  by (relation "measure (\<lambda>(jitter, fn, attempt_number, slept). 5 - attempt_number)") auto

declare retrying.simps [simp del]

text \<open>
  \<^verbatim>\<open>final_wrapper\<close>, which becomes \<^verbatim>\<open>self._proc_data\<close>: whatever the retried call raises is
  turned into a \<^verbatim>\<open>NodeProcessingError\<close> value holding the input, the node's name, the
  caught exception and its formatted trace (\<open>format_exc\<close> stands for
  \<^verbatim>\<open>traceback.format_exc()\<close>). It returns a value in every case.
\<close>

definition final_wrapper ::
  "string \<Rightarrow> (exn \<Rightarrow> string) \<Rightarrow> (nat \<Rightarrow> real) \<Rightarrow> proc_func \<Rightarrow> pyval \<Rightarrow> pyval" where
  "final_wrapper self_name format_exc jitter func data =
    (case fst (retrying jitter (\<lambda>k. error_wrapper func k data) 1 []) of
       Inr result \<Rightarrow> result
     | Inl e \<Rightarrow> NodeProcessingError data self_name e (format_exc e))"

section \<open>The fetch stage\<close>

text \<open>What \<^verbatim>\<open>isinstance(data, Iterable)\<close> accepts, with the elements iteration yields.\<close>

fun py_iter :: "pyval \<Rightarrow> pyval list option" where
  "py_iter (PTuple xs) = Some xs"
| "py_iter (PList xs) = Some xs"
| "py_iter (PStr s) = Some (map (\<lambda>c. PStr [c]) s)"
| "py_iter _ = None"

text \<open>
  \<^verbatim>\<open>Node._get_one_data\<close> is a generator function. Iterating \<^verbatim>\<open>_get_one_data(data)\<close>
  either raises in its body or yields the listed values.
\<close>

definition get_one_data :: "node \<Rightarrow> pyval \<Rightarrow> exn + pyval list" where
  "get_one_data n data =
    (if data = PExc StopIteration then Inl StopIteration
     else if is_data_iterable n then
       (case py_iter data of None \<Rightarrow> Inl AssertionError | Some ds \<Rightarrow> Inr ds)
     else Inr [data])"

text \<open>
  An exception that leaves the body of a generator: Python replaces \<^verbatim>\<open>StopIteration\<close>
  by \<^verbatim>\<open>RuntimeError\<close> ("generator raised StopIteration").
\<close>

definition generator_raise :: "exn \<Rightarrow> exn" where
  "generator_raise e = (if e = StopIteration then RuntimeError else e)"

text \<open>
  \<^verbatim>\<open>next(self.get_data_generator)\<close>, where the generator is \<^verbatim>\<open>Node._get_data\<close>:
  \<^verbatim>\<open>while self.is_start: data = self.src_queue.get(); yield from self._get_one_data(data)\<close>.
  A finished generator raises \<^verbatim>\<open>StopIteration\<close>. \<open>Block\<close>: the queue is empty and
  \<^verbatim>\<open>get()\<close> suspends the caller. The first argument is the current \<^verbatim>\<open>self._get_one_data\<close>.
\<close>

datatype next_result = Yield pyval | Raise exn | Block

function next_get_data ::
  "(node \<Rightarrow> pyval \<Rightarrow> exn + pyval list) \<Rightarrow> node \<Rightarrow> next_result \<times> node" where
  "next_get_data get_one n =
    (case get_data_generator n of
       None \<Rightarrow> (Raise AttributeError, n)
     | Some Finished \<Rightarrow> (Raise StopIteration, n)
     | Some (Suspended (d # ds)) \<Rightarrow> (Yield d, n\<lparr>get_data_generator := Some (Suspended ds)\<rparr>)
     | Some (Suspended []) \<Rightarrow>
         if \<not> is_start n then (Raise StopIteration, n\<lparr>get_data_generator := Some Finished\<rparr>)
         else
           (case src_queue n of
              [] \<Rightarrow> (Block, n)
            | data # q \<Rightarrow>
                (case get_one n data of
                   Inl e \<Rightarrow>
                     (Raise (generator_raise e),
                      n\<lparr>src_queue := q, get_data_generator := Some Finished\<rparr>)
                 | Inr ds \<Rightarrow>
                     next_get_data get_one
                       (n\<lparr>src_queue := q, get_data_generator := Some (Suspended ds)\<rparr>))))"
  by pat_completeness auto
termination
  by (relation "measure (\<lambda>(get_one, n). length (src_queue n))") auto

declare next_get_data.simps [simp del]

section \<open>The worker loop\<close>

text \<open>
  The three stage attributes of a node as the worker calls them. Decorators rebind them,
  so the loop is stated for any three callables: what iterating
  \<^verbatim>\<open>self._get_one_data(data)\<close> does, what \<^verbatim>\<open>self._proc_data(data)\<close> returns or raises, and
  what \<^verbatim>\<open>self._put_data(result)\<close> does to the objects (with the exception it raised, if
  any).
\<close>

record stages =
  get_one_data_s :: "node \<Rightarrow> pyval \<Rightarrow> exn + pyval list"
  proc_data_s :: "pyval \<Rightarrow> exn + pyval"
  put_data_s :: "ref \<Rightarrow> pyval \<Rightarrow> heap \<Rightarrow> exn option \<times> heap"

text \<open>The stages of a node without decorators, for the user's function \<open>func\<close>.\<close>

definition undecorated ::
  "string \<Rightarrow> (exn \<Rightarrow> string) \<Rightarrow> (nat \<Rightarrow> real) \<Rightarrow> proc_func \<Rightarrow> stages" where
  "undecorated self_name format_exc jitter func =
    \<lparr> get_one_data_s = get_one_data,
      proc_data_s = (\<lambda>data. Inr (final_wrapper self_name format_exc jitter func data)),
      put_data_s = (\<lambda>self data h. (None, put_data self data h)) \<rparr>"

text \<open>Truthiness, for \<^verbatim>\<open>if data:\<close>.\<close>

fun py_truthy :: "pyval \<Rightarrow> bool" where
  "py_truthy PNone = False"
| "py_truthy (PBool b) = b"
| "py_truthy (PInt i) = (i \<noteq> 0)"
| "py_truthy (PStr s) = (s \<noteq> [])"
| "py_truthy (PTuple xs) = (xs \<noteq> [])"
| "py_truthy (PList xs) = (xs \<noteq> [])"
| "py_truthy _ = True"

text \<open>
  How one pass through the body of \<^verbatim>\<open>while self.is_start:\<close> in \<^verbatim>\<open>_func_wrapper\<close> ends.
  \<open>Stopped\<close> is the handler \<^verbatim>\<open>except StopIteration\<close> (log "stop", \<^verbatim>\<open>break\<close>);
  \<open>Error_logged e b\<close> is the handler \<^verbatim>\<open>except Exception\<close>, which logs \<open>e\<close> with the data
  (\<open>b\<close>) or with "Not get data" and goes on to \<^verbatim>\<open>sleep(0)\<close>.
\<close>

datatype outcome =
    Processed
  | Idle
  | Waiting
  | Stopped
  | Error_logged exn bool
  | Not_started

definition handler :: "exn \<Rightarrow> pyval \<Rightarrow> outcome" where
  "handler e data = (if e = StopIteration then Stopped else Error_logged e (py_truthy data))"

definition remove_executing :: "ref \<Rightarrow> pyval \<Rightarrow> heap \<Rightarrow> heap" where
  "remove_executing self data h =
     h(self := (h self)\<lparr>executing_data_queue := remove1 data (executing_data_queue (h self))\<rparr>)"

definition func_wrapper_iteration :: "stages \<Rightarrow> ref \<Rightarrow> heap \<Rightarrow> outcome \<times> heap" where
  "func_wrapper_iteration st self h =
    (let n = h self in
     if \<not> is_start n then (Not_started, h)
     else if \<not> int (length (executing_data_queue n)) < worker_num n then (Idle, h)
     else
       (case next_get_data (get_one_data_s st) n of
          (Block, n') \<Rightarrow> (Waiting, h)
        | (Raise e, n') \<Rightarrow> (handler e PNone, h(self := n'))
        | (Yield data, n') \<Rightarrow>
            (let h = h(self := n'\<lparr>executing_data_queue := executing_data_queue n' @ [data]\<rparr>)
             in case proc_data_s st data of
                  Inl e \<Rightarrow> (handler e data, remove_executing self data h)
                | Inr result \<Rightarrow>
                    (case put_data_s st self result h of
                       (Some e, h) \<Rightarrow> (handler e data, remove_executing self data h)
                     | (None, h) \<Rightarrow> (Processed, remove_executing self data h)))))"

text \<open>
  A node as \<^verbatim>\<open>Node(f, worker_num=w, no_output=True)\<close> builds it under an empty
  configuration, after \<^verbatim>\<open>start()\<close>.
\<close>

definition started_node :: "int \<Rightarrow> node" where
  "started_node w =
     snd (start (Node_init Map.empty ''f'' default_criteria (Some w) None True False None))"

section \<open>Greenlets: the workers and the caller of \<^verbatim>\<open>end()\<close>\<close>

text \<open>
  gevent runs greenlets cooperatively: one runs until it suspends, then any greenlet
  that can go on may be the next. A worker of \<^verbatim>\<open>_func_wrapper\<close> suspends at
  \<^verbatim>\<open>sleep(0)\<close> after each pass (\<open>At_top\<close>), in \<^verbatim>\<open>self.src_queue.get()\<close> on an empty queue
  while it holds \<^verbatim>\<open>get_data_lock\<close> (\<open>In_get\<close>), in the sleeps of the retried
  \<^verbatim>\<open>_proc_data(data)\<close> (\<open>In_proc data\<close>), and in \<^verbatim>\<open>node.put(result)\<close> on a full destination
  queue during \<^verbatim>\<open>_put_data(result)\<close> (\<open>In_put data result nodes\<close>, with the destinations
  still to visit).
\<close>

datatype wpc = At_top | In_get | In_proc pyval | In_put pyval pyval "ref list"

text \<open>
  The greenlet that runs \<^verbatim>\<open>Node.end\<close>, once it has been called: in the loop with so
  many stop tokens still to put, in \<^verbatim>\<open>gevent.joinall(self.tasks)\<close>, or returned.
\<close>

datatype epc = Not_called | End_put nat | End_join | End_returned

record world =
  nodes :: heap
  pcs :: "ref \<Rightarrow> nat \<Rightarrow> wpc"
  ender :: epc

definition set_node :: "ref \<Rightarrow> node \<Rightarrow> world \<Rightarrow> world" where
  "set_node r n w = w\<lparr>nodes := (nodes w)(r := n)\<rparr>"

definition set_pc :: "ref \<Rightarrow> nat \<Rightarrow> wpc \<Rightarrow> world \<Rightarrow> world" where
  "set_pc r k c w = w\<lparr>pcs := (pcs w)(r := (pcs w r)(k := c))\<rparr>"

text \<open>The worker at position \<open>k\<close> of node \<open>r\<close>'s task list; it is alive until its loop ends.\<close>

definition alive :: "world \<Rightarrow> ref \<Rightarrow> nat \<Rightarrow> bool" where
  "alive w r k = (k < length (tasks (nodes w r)) \<and> \<not> dead (tasks (nodes w r) ! k))"

definition kill :: "ref \<Rightarrow> nat \<Rightarrow> world \<Rightarrow> world" where
  "kill r k w =
    set_pc r k At_top
      (set_node r ((nodes w r)\<lparr>tasks := (tasks (nodes w r))
                       [k := Greenlet (task_id (tasks (nodes w r) ! k)) True]\<rparr>) w)"

text \<open>\<^verbatim>\<open>get_data_lock\<close> is held exactly by a worker suspended in \<^verbatim>\<open>get()\<close>.\<close>

definition lock_free :: "world \<Rightarrow> ref \<Rightarrow> bool" where
  "lock_free w r = list_all (\<lambda>k. pcs w r k \<noteq> In_get) [0..<length (tasks (nodes w r))]"

text \<open>
  What follows \<^verbatim>\<open>next(self.get_data_generator)\<close> in a pass: suspension in \<^verbatim>\<open>get()\<close>; an
  exception, handled by \<^verbatim>\<open>break\<close> for \<^verbatim>\<open>StopIteration\<close> and else by the error log and
  \<^verbatim>\<open>sleep(0)\<close>; or the data, recorded as in flight and passed on to \<^verbatim>\<open>_proc_data\<close>.
\<close>

definition fetched :: "ref \<Rightarrow> nat \<Rightarrow> next_result \<times> node \<Rightarrow> world \<Rightarrow> world" where
  "fetched r k res w =
    (case res of
       (Block, n') \<Rightarrow> set_pc r k In_get w
     | (Raise e, n') \<Rightarrow>
         if e = StopIteration then kill r k (set_node r n' w)
         else set_pc r k At_top (set_node r n' w)
     | (Yield data, n') \<Rightarrow>
         set_pc r k (In_proc data)
           (set_node r (n'\<lparr>executing_data_queue := executing_data_queue n' @ [data]\<rparr>) w))"

text \<open>
  Modelled from the spec: \<^verbatim>\<open>AbstractNode.end\<close>, called as \<^verbatim>\<open>super().end()\<close>, is in the
  interface module, outside the files verified here. The spec says it "marks intent to
  stop", and the comment in \<^verbatim>\<open>Node.end\<close> says that \<open>is_start\<close> is not cleared, so that
  the queue is drained: it changes none of the fields modelled here.
\<close>

definition super_end :: "ref \<Rightarrow> heap \<Rightarrow> heap" where
  "super_end self h = h"

text \<open>
  The call \<^verbatim>\<open>self.end()\<close>: after \<^verbatim>\<open>super().end()\<close> the caller enters the loop
  \<^verbatim>\<open>for _ in range(self.worker_num)\<close>.
\<close>

definition end_call :: "ref \<Rightarrow> world \<Rightarrow> world" where
  "end_call self w =
    (let w = w\<lparr>nodes := super_end self (nodes w)\<rparr>
     in w\<lparr>ender := End_put (length (py_range (worker_num (nodes w self))))\<rparr>)"

text \<open>
  One step of one greenlet, from one suspension to the next. \<open>proc_data r\<close> is node
  \<open>r\<close>'s undecorated \<^verbatim>\<open>_proc_data\<close>, which returns a value for every input; the nodes
  have no decorators. The steps are at least as fine as the program's: where the
  program does not suspend between two of them, it takes them in a row. The stop token
  is put only when the queue has room, and \<^verbatim>\<open>joinall\<close> is left only when every worker
  of the node is dead.
\<close>

inductive step :: "(ref \<Rightarrow> pyval \<Rightarrow> pyval) \<Rightarrow> ref \<Rightarrow> world \<Rightarrow> world \<Rightarrow> bool"
  for proc_data :: "ref \<Rightarrow> pyval \<Rightarrow> pyval" and self :: ref where
  w_exit:
    "alive w r k \<Longrightarrow> pcs w r k = At_top \<Longrightarrow> \<not> is_start (nodes w r) \<Longrightarrow>
     step proc_data self w (kill r k w)"
| w_idle:
    "alive w r k \<Longrightarrow> pcs w r k = At_top \<Longrightarrow> is_start (nodes w r) \<Longrightarrow>
     \<not> int (length (executing_data_queue (nodes w r))) < worker_num (nodes w r) \<Longrightarrow>
     step proc_data self w w"
| w_fetch:
    "alive w r k \<Longrightarrow> pcs w r k = At_top \<Longrightarrow> is_start (nodes w r) \<Longrightarrow>
     int (length (executing_data_queue (nodes w r))) < worker_num (nodes w r) \<Longrightarrow>
     lock_free w r \<Longrightarrow>
     step proc_data self w (fetched r k (next_get_data get_one_data (nodes w r)) w)"
| w_get:
    "alive w r k \<Longrightarrow> pcs w r k = In_get \<Longrightarrow> src_queue (nodes w r) \<noteq> [] \<Longrightarrow>
     step proc_data self w (fetched r k (next_get_data get_one_data (nodes w r)) w)"
| w_proc:
    "alive w r k \<Longrightarrow> pcs w r k = In_proc data \<Longrightarrow>
     step proc_data self w
       (set_pc r k (In_put data (proc_data r data) (dict_values (dst_nodes (nodes w r)))) w)"
| w_put_skip:
    "alive w r k \<Longrightarrow> pcs w r k = In_put data result (node # rest) \<Longrightarrow>
     \<not> criteria (nodes w node) r result \<Longrightarrow>
     step proc_data self w (set_pc r k (In_put data result rest) w)"
| w_put:
    "alive w r k \<Longrightarrow> pcs w r k = In_put data result (node # rest) \<Longrightarrow>
     criteria (nodes w node) r result \<Longrightarrow> \<not> queue_full (nodes w node) \<Longrightarrow>
     step proc_data self w
       (set_pc r k (In_put data result rest) (w\<lparr>nodes := put node result (nodes w)\<rparr>))"
| w_put_done:
    "alive w r k \<Longrightarrow> pcs w r k = In_put data result [] \<Longrightarrow>
     step proc_data self w
       (set_pc r k At_top (w\<lparr>nodes := remove_executing r data (nodes w)\<rparr>))"
| e_put:
    "ender w = End_put (Suc j) \<Longrightarrow> \<not> queue_full (nodes w self) \<Longrightarrow>
     step proc_data self w
       (w\<lparr>nodes := put self (PExc StopIteration) (nodes w), ender := End_put j\<rparr>)"
| e_loop_done:
    "ender w = End_put 0 \<Longrightarrow> step proc_data self w (w\<lparr>ender := End_join\<rparr>)"
| e_join:
    "ender w = End_join \<Longrightarrow> \<forall>g \<in> set (tasks (nodes w self)). dead g \<Longrightarrow>
     step proc_data self w (w\<lparr>ender := End_returned\<rparr>)"

text \<open>
  The stop tokens that a node's queue holds, plus one when its generator is finished:
  a stop token leaves the queue only by finishing the generator, and a finished
  generator takes nothing from the queue.
\<close>

definition stop_tokens :: "node \<Rightarrow> nat" where
  "stop_tokens n =
     count_list (src_queue n) (PExc StopIteration)
     + (if get_data_generator n = Some Finished then 1 else 0)"

text \<open>
  Two properties of the states after a call of \<^verbatim>\<open>end()\<close> on node \<open>self\<close>, for the proofs
  below. \<open>end_inv\<close>, for a node with \<open>W\<close> workers and queue size \<open>C\<close>: the queue is
  within its size and the caller is in its loop, having put no more stop tokens than
  \<open>stop_tokens\<close> counts. \<open>joined\<close>: if the caller has returned, every worker is dead.
\<close>

definition end_inv :: "ref \<Rightarrow> int \<Rightarrow> int \<Rightarrow> world \<Rightarrow> bool" where
  "end_inv self W C w =
    (worker_num (nodes w self) = W \<and> queue_size (nodes w self) = C
     \<and> int (length (src_queue (nodes w self))) \<le> C
     \<and> (\<exists>j. ender w = End_put j \<and> j \<le> nat W \<and> nat W - j \<le> stop_tokens (nodes w self)))"

definition joined :: "ref \<Rightarrow> world \<Rightarrow> bool" where
  "joined self w = (ender w = End_returned \<longrightarrow> list_all dead (tasks (nodes w self)))"

text \<open>
  A started node with three workers and a queue of size 1, as
  \<^verbatim>\<open>Node(f, worker_num=3, queue_size=1, no_output=True)\<close> builds it, and four states
  after \<^verbatim>\<open>end()\<close> is called on it: at the call; after the first stop token is put;
  after a worker has fetched it; after the second stop token is put.
\<close>

definition small_queue_world :: world where
  "small_queue_world =
    \<lparr> nodes = (\<lambda>r. snd (start (Node_init Map.empty ''f'' default_criteria (Some 3) (Some 1)
                                 True False None))),
      pcs = (\<lambda>r k. At_top),
      ender = Not_called \<rparr>"

definition blocked_end_0 :: world where
  "blocked_end_0 = end_call 0 small_queue_world"

definition blocked_end_1 :: world where
  "blocked_end_1 =
     blocked_end_0\<lparr>nodes := put 0 (PExc StopIteration) (nodes blocked_end_0), ender := End_put 2\<rparr>"

definition blocked_end_2 :: world where
  "blocked_end_2 = fetched 0 0 (next_get_data get_one_data (nodes blocked_end_1 0)) blocked_end_1"

definition blocked_end_3 :: world where
  "blocked_end_3 =
     blocked_end_2\<lparr>nodes := put 0 (PExc StopIteration) (nodes blocked_end_2), ender := End_put 1\<rparr>"

section \<open>IterablePipeline (\<^verbatim>\<open>async_dfd/pipeline/label_pipeline/iterable_pipeline.py\<close>)\<close>

text \<open>
  \<^verbatim>\<open>IterablePipeline.ProcessingTask\<close>. \<open>task_iter\<close> is \<^verbatim>\<open>self._iter\<close>, the iterator made by
  \<^verbatim>\<open>itertools.tee(data, 1)[0]\<close>, as the elements it has not produced yet.
  \<open>over_results\<close> is a dict from slot index to result.
\<close>

record processing_task =
  index :: int
  over_results :: "(pyval \<times> pyval) list"
  original_data :: pyval
  task_iter :: "pyval list"
  is_generator_exhausted :: bool
  task_label :: pyval

text \<open>
  \<^verbatim>\<open>ProcessingTask.__init__\<close>. \<open>generate_label\<close> comes from the label module,
  outside the files verified here; it is a parameter. The \<^verbatim>\<open>next(self._iter)\<close> in the initialiser is
  not guarded.
\<close>

definition ProcessingTask_init :: "(pyval \<Rightarrow> pyval) \<Rightarrow> pyval \<Rightarrow> exn + processing_task" where
  "ProcessingTask_init generate_label data =
    (case py_iter data of
       None \<Rightarrow> Inl AssertionError
     | Some xs \<Rightarrow>
         (case xs of
            [] \<Rightarrow> Inl StopIteration
          | x # rest \<Rightarrow>
              Inr \<lparr> index = 0, over_results = [], original_data = data, task_iter = rest,
                    is_generator_exhausted = False, task_label = generate_label data \<rparr>))"

text \<open>\<^verbatim>\<open>ProcessingTask.get_label\<close>: the \<^verbatim>\<open>finally\<close> block runs and returns in both cases.\<close>

definition task_get_label :: "processing_task \<Rightarrow> pyval \<times> processing_task" where
  "task_get_label t =
    (let t = (case task_iter t of
                [] \<Rightarrow> t\<lparr>is_generator_exhausted := True\<rparr>
              | x # rest \<Rightarrow> t\<lparr>task_iter := rest\<rparr>);
         i = index t;
         t = t\<lparr>index := index t + 1\<rparr>;
         t = t\<lparr>over_results := dict_set (PInt i) PNone (over_results t)\<rparr>
     in (PTuple [task_label t, PInt i], t))"

text \<open>The pipeline's own state: \<^verbatim>\<open>self.processing_tasks\<close>, a dict from label to task.\<close>

record iterable_pipeline =
  processing_tasks :: "(pyval \<times> processing_task) list"

text \<open>\<^verbatim>\<open>d[k]\<close> on a dict raises \<^verbatim>\<open>KeyError\<close> for a missing key.\<close>

definition dict_getitem :: "('k \<times> 'v) list \<Rightarrow> 'k \<Rightarrow> exn + 'v" where
  "dict_getitem d k = (case map_of d k of None \<Rightarrow> Inl KeyError | Some v \<Rightarrow> Inr v)"

text \<open>\<^verbatim>\<open>IterablePipeline.get_label\<close>; the task object is updated in place.\<close>

definition get_label ::
  "(pyval \<Rightarrow> pyval) \<Rightarrow> pyval \<Rightarrow> pyval \<Rightarrow> iterable_pipeline \<Rightarrow> (exn + pyval) \<times> iterable_pipeline" where
  "get_label generate_label data_point data_gen p =
    (case dict_getitem (processing_tasks p) (generate_label data_gen) of
       Inl e \<Rightarrow> (Inl e, p)
     | Inr task \<Rightarrow>
         (case task_get_label task of
            (label, task) \<Rightarrow>
              (Inr label,
               p\<lparr>processing_tasks :=
                    dict_set (generate_label data_gen) task (processing_tasks p)\<rparr>)))"

text \<open>
  \<^verbatim>\<open>_iterable_get_data_wrapper\<close>, the get-decorator put on the head node. \<open>get_func\<close> is
  the wrapped \<^verbatim>\<open>_get_one_data\<close>; it is called only after the task has been registered.
\<close>

definition iterable_get_data_wrapper ::
  "(pyval \<Rightarrow> pyval) \<Rightarrow> (pyval \<Rightarrow> 'r) \<Rightarrow> pyval \<Rightarrow> iterable_pipeline
    \<Rightarrow> (exn + 'r) \<times> iterable_pipeline" where
  "iterable_get_data_wrapper generate_label get_func iter_data p =
    (case ProcessingTask_init generate_label iter_data of
       Inl e \<Rightarrow> (Inl e, p)
     | Inr new_tasks \<Rightarrow>
         (let p = p\<lparr>processing_tasks :=
                      dict_set (task_label new_tasks) new_tasks (processing_tasks p)\<rparr>
          in (Inr (get_func iter_data), p)))"

text \<open>
  Modelled from the spec: \<^verbatim>\<open>LabelPipeline.get_data_func_label(label_data, func)\<close> is in the
  label pipeline module, outside the files verified here. By the spec each element is
  tagged with the pair (task token, slot index) that the label function returned; this
  is the tag the \<^verbatim>\<open>LabelData\<close> carries.
\<close>

definition get_data_func_label :: "pyval \<Rightarrow> pyval" where
  "get_data_func_label label_data = (case label_data of LabelData d l \<Rightarrow> l | _ \<Rightarrow> PNone)"

text \<open>\<^verbatim>\<open>x[i]\<close> for a tuple or list and an index from 0.\<close>

definition subscript :: "pyval \<Rightarrow> nat \<Rightarrow> exn + pyval" where
  "subscript x i =
    (case x of
       PTuple xs \<Rightarrow> (if i < length xs then Inr (xs ! i) else Inl IndexError)
     | PList xs \<Rightarrow> (if i < length xs then Inr (xs ! i) else Inl IndexError)
     | _ \<Rightarrow> Inl TypeError)"

text \<open>
  \<^verbatim>\<open>_iterable_put_data_wrapper\<close>, the put-decorator put on the tail node. \<open>put_func\<close> is
  the wrapped \<^verbatim>\<open>_put_data\<close>, acting on whatever lies downstream (\<open>s\<close>). The walrus
  expression binds \<^verbatim>\<open>over_results\<close> to the list of the tests \<^verbatim>\<open>v is not None\<close>, and that
  list is what is packed into the aggregate.
\<close>

definition iterable_put_data_wrapper ::
  "(pyval \<Rightarrow> 's \<Rightarrow> 's) \<Rightarrow> pyval \<Rightarrow> iterable_pipeline \<times> 's \<Rightarrow> exn option \<times> iterable_pipeline \<times> 's" where
  "iterable_put_data_wrapper put_func label_data ps =
    (case ps of (p, s) \<Rightarrow>
      (case label_data of
         LabelData content lbl \<Rightarrow>
           (let label = get_data_func_label label_data in
            case subscript label 0 of
              Inl e \<Rightarrow> (Some e, p, s)
            | Inr label0 \<Rightarrow>
                (case dict_getitem (processing_tasks p) label0 of
                   Inl e \<Rightarrow> (Some e, p, s)
                 | Inr task \<Rightarrow>
                     (case subscript label 1 of
                        Inl e \<Rightarrow> (Some e, p, s)
                      | Inr label1 \<Rightarrow>
                          (let task = task\<lparr>over_results :=
                                              dict_set label1 content (over_results task)\<rparr>;
                               p = p\<lparr>processing_tasks :=
                                        dict_set label0 task (processing_tasks p)\<rparr>;
                               over_results_w =
                                 map (\<lambda>v. v \<noteq> PNone) (dict_values (over_results task))
                           in if is_generator_exhausted task \<and> list_all id over_results_w
                              then
                                (let data = LabelData
                                       (PTuple [original_data task, PList (map PBool over_results_w)])
                                       label0
                                 in (None, p, put_func data s))
                              else (None, p, s)))))
       | _ \<Rightarrow> (Some AssertionError, p, s)))"

section \<open>Graph (\<^verbatim>\<open>async_dfd/graph/graph.py\<close>)\<close>

text \<open>
  \<^verbatim>\<open>all_nodes\<close> is the group's dict from descriptive name to node. The objects that
  \<^verbatim>\<open>topological_sort\<close> binds to its loop variables and uses as dict keys are strings
  and nodes.
\<close>

datatype obj = Str string | NodeRef ref

text \<open>
  \<^verbatim>\<open>desc, node = x\<close>: a string unpacks into its characters and must have exactly two; a
  node is not iterable.
\<close>

definition unpack2 :: "obj \<Rightarrow> exn + obj \<times> obj" where
  "unpack2 x =
    (case x of
       Str s \<Rightarrow> (if length s = 2 then Inr (Str [s ! 0], Str [s ! 1]) else Inl ValueError)
     | NodeRef r \<Rightarrow> Inl TypeError)"

text \<open>\<^verbatim>\<open>x.dst_nodes\<close>: a string has no such attribute.\<close>

definition attr_dst_nodes :: "heap \<Rightarrow> obj \<Rightarrow> exn + (string \<times> ref) list" where
  "attr_dst_nodes h x =
    (case x of NodeRef r \<Rightarrow> Inr (dst_nodes (h r)) | Str s \<Rightarrow> Inl AttributeError)"

text \<open>
  The first loop, \<^verbatim>\<open>for desc, node in all_nodes\<close>, over what iterating the dict yields: its
  keys. \<open>in_degree\<close> is a \<^verbatim>\<open>defaultdict(int)\<close>, \<open>descriptions\<close> a dict. Iterating
  \<^verbatim>\<open>node.dst_nodes\<close> yields that dict's keys, the names.
\<close>

fun count_in_degrees ::
  "heap \<Rightarrow> obj list \<Rightarrow> (obj \<Rightarrow> int) \<times> (obj \<rightharpoonup> obj) \<Rightarrow> exn + (obj \<Rightarrow> int) \<times> (obj \<rightharpoonup> obj)" where
  "count_in_degrees h [] acc = Inr acc"
| "count_in_degrees h (x # xs) acc =
    (case acc of (in_degree, descriptions) \<Rightarrow>
      (case unpack2 x of
         Inl e \<Rightarrow> Inl e
       | Inr (desc, node) \<Rightarrow>
           (let descriptions = descriptions(node \<mapsto> desc)
            in case attr_dst_nodes h node of
                 Inl e \<Rightarrow> Inl e
               | Inr dsts \<Rightarrow>
                   count_in_degrees h xs
                     (fold (\<lambda>neighbor deg. deg(neighbor := deg neighbor + 1))
                        (map (\<lambda>kv. Str (fst kv)) dsts) in_degree,
                      descriptions))))"

text \<open>
  The loop \<^verbatim>\<open>while queue:\<close>. \<^verbatim>\<open>get_neighbors\<close> is a method of the interface module, which
  lies outside the files verified here; it is a parameter. \<open>None\<close>: the loop has not ended after
  \<open>fuel\<close> passes.
\<close>

definition visit_neighbors ::
  "obj list \<Rightarrow> (obj \<Rightarrow> int) \<times> obj list \<Rightarrow> (obj \<Rightarrow> int) \<times> obj list" where
  "visit_neighbors neighbors acc =
    fold (\<lambda>neighbor (deg, queue).
            (let deg = deg(neighbor := deg neighbor - 1)
             in if deg neighbor = 0 then (deg, queue @ [neighbor]) else (deg, queue)))
      neighbors acc"

fun sort_loop ::
  "nat \<Rightarrow> (heap \<Rightarrow> ref \<Rightarrow> obj list) \<Rightarrow> heap \<Rightarrow> (obj \<rightharpoonup> obj) \<Rightarrow> obj list \<Rightarrow> (obj \<Rightarrow> int)
    \<Rightarrow> (obj \<times> obj) list \<Rightarrow> (exn + (obj \<times> obj) list) option" where
  "sort_loop fuel get_neighbors h descriptions [] in_degree sorted_nodes = Some (Inr sorted_nodes)"
| "sort_loop 0 get_neighbors h descriptions (node # queue) in_degree sorted_nodes = None"
| "sort_loop (Suc fuel) get_neighbors h descriptions (node # queue) in_degree sorted_nodes =
    (case descriptions node of
       None \<Rightarrow> Some (Inl KeyError)
     | Some desc \<Rightarrow>
         (let sorted_nodes = dict_set desc node sorted_nodes
          in case node of
               Str s \<Rightarrow> Some (Inl AttributeError)
             | NodeRef r \<Rightarrow>
                 (case visit_neighbors (get_neighbors h r) (in_degree, queue) of
                    (in_degree, queue) \<Rightarrow>
                      sort_loop fuel get_neighbors h descriptions queue in_degree sorted_nodes)))"

text \<open>\<^verbatim>\<open>Graph.topological_sort\<close>\<close>

definition topological_sort ::
  "nat \<Rightarrow> (heap \<Rightarrow> ref \<Rightarrow> obj list) \<Rightarrow> heap \<Rightarrow> (string \<times> ref) list
    \<Rightarrow> (exn + (obj \<times> obj) list) option" where
  "topological_sort fuel get_neighbors h all_nodes =
    (case count_in_degrees h (map (\<lambda>kv. Str (fst kv)) all_nodes) (\<lambda>x. 0, Map.empty) of
       Inl e \<Rightarrow> Some (Inl e)
     | Inr (in_degree, descriptions) \<Rightarrow>
         (let queue = filter (\<lambda>node. in_degree node = 0) (map NodeRef (dict_values all_nodes))
          in case sort_loop fuel get_neighbors h descriptions queue in_degree [] of
               None \<Rightarrow> None
             | Some (Inl e) \<Rightarrow> Some (Inl e)
             | Some (Inr sorted_nodes) \<Rightarrow>
                 if length sorted_nodes \<noteq> length all_nodes then Some (Inl ValueError)
                 else Some (Inr sorted_nodes)))"

text \<open>
  \<^verbatim>\<open>Graph.start\<close>: the sort, then \<^verbatim>\<open>super().start()\<close> on the sorted mapping.
  \<^verbatim>\<open>NodeGroup.start\<close> is in the interface module, outside the files verified here; it is
  the parameter \<open>super_start\<close>. An exception of the sort leaves every node as it was.
\<close>

definition Graph_start ::
  "nat \<Rightarrow> (heap \<Rightarrow> ref \<Rightarrow> obj list) \<Rightarrow> ((obj \<times> obj) list \<Rightarrow> heap \<Rightarrow> exn option \<times> heap)
    \<Rightarrow> (string \<times> ref) list \<Rightarrow> heap \<Rightarrow> (exn option \<times> heap) option" where
  "Graph_start fuel get_neighbors super_start all_nodes h =
    (case topological_sort fuel get_neighbors h all_nodes of
       None \<Rightarrow> None
     | Some (Inl e) \<Rightarrow> Some (Some e, h)
     | Some (Inr sorted_nodes) \<Rightarrow> Some (super_start sorted_nodes h))"

section \<open>Facts about the start-up steps\<close>

lemma fold_snoc: "fold (\<lambda>d acc. acc @ [d]) xs ys = ys @ xs"
  by (induction xs arbitrary: ys) auto

lemma fold_spawn:
  "fold (\<lambda>i n. n\<lparr>tasks := tasks n @ [spawn i]\<rparr>) is n = n\<lparr>tasks := tasks n @ map spawn is\<rparr>"
  by (induction "is" arbitrary: n) auto

lemma tasks_spawn_workers:
  "tasks (spawn_workers n) = tasks n @ map spawn (py_range (worker_num n))"
  by (simp add: spawn_workers_def Let_def fold_spawn)

lemma is_start_spawn_workers: "is_start (spawn_workers n)"
  by (simp add: spawn_workers_def Let_def)

lemma tasks_rearrange: "tasks (rearrange_proc_decorator n) = tasks n"
  by (simp add: rearrange_proc_decorator_def Let_def)

lemma worker_num_rearrange: "worker_num (rearrange_proc_decorator n) = worker_num n"
  by (simp add: rearrange_proc_decorator_def Let_def)

lemma tasks_setup_decorators: "tasks (setup_decorators n) = tasks n"
  by (simp add: setup_decorators_def Let_def tasks_rearrange)

lemma worker_num_setup_decorators: "worker_num (setup_decorators n) = worker_num n"
  by (simp add: setup_decorators_def Let_def worker_num_rearrange)

section \<open>Start-up validation\<close>

text \<open>
  C5: \<^verbatim>\<open>start()\<close> validates the destination wiring first. A node marked \<open>no_output\<close>
  with a destination, or not so marked and without destination, makes \<^verbatim>\<open>start\<close> raise
  \<^verbatim>\<open>AssertionError\<close> and leaves the node as it was: no worker exists. Otherwise
  \<^verbatim>\<open>start\<close> returns the task list, which has grown by one worker for each of
  \<^verbatim>\<open>range(worker_num)\<close>, and the node is running.
\<close>

theorem C5_start_validates_destinations:
  "(if (no_output n \<and> dst_nodes n \<noteq> []) \<or> (\<not> no_output n \<and> dst_nodes n = [])
    then start n = (Inl AssertionError, n)
    else (\<exists>n'. start n = (Inr (tasks n'), n')
            \<and> tasks n' = tasks n @ map spawn (py_range (worker_num n))
            \<and> length (tasks n') = length (tasks n) + nat (worker_num n)
            \<and> (0 \<le> worker_num n \<longrightarrow>
                 int (length (map spawn (py_range (worker_num n)))) = worker_num n)
            \<and> is_start n'))"
  by (auto simp: start_def validate_destinations_def Let_def tasks_spawn_workers
      tasks_setup_decorators worker_num_setup_decorators is_start_spawn_workers py_range_def)

theorem C5_start_validates_destinations_witness:
  "start ((Node_init Map.empty ''f'' default_criteria (Some 3) None True False None)
            \<lparr>dst_nodes := [(''g'', 1)]\<rparr>)
     = (Inl AssertionError,
        (Node_init Map.empty ''f'' default_criteria (Some 3) None True False None)
            \<lparr>dst_nodes := [(''g'', 1)]\<rparr>)
   \<and> start (Node_init Map.empty ''f'' default_criteria (Some 3) None False False None)
     = (Inl AssertionError, Node_init Map.empty ''f'' default_criteria (Some 3) None False False None)
   \<and> fst (start ((Node_init Map.empty ''f'' default_criteria (Some 3) None False False None)
            \<lparr>dst_nodes := [(''g'', 1)]\<rparr>))
       = Inr [Greenlet 0 False, Greenlet 1 False, Greenlet 2 False]"
  using C5_start_validates_destinations [of "(Node_init Map.empty ''f'' default_criteria (Some 3)
        None True False None)\<lparr>dst_nodes := [(''g'', 1)]\<rparr>"]
    C5_start_validates_destinations [of "Node_init Map.empty ''f'' default_criteria (Some 3)
        None False False None"]
    C5_start_validates_destinations [of "(Node_init Map.empty ''f'' default_criteria (Some 3)
        None False False None)\<lparr>dst_nodes := [(''g'', 1)]\<rparr>"]
  by (auto simp: Node_init_def truthy_def py_range_def upt_rec spawn_def)

section \<open>Order of the process decorators\<close>

lemma proc_decorators_rearrange:
  "proc_decorators (rearrange_proc_decorator n) =
     remove1 skip_data_decorator (remove1 label_proc_decorator (proc_decorators n))
     @ (if label_proc_decorator \<in> set (proc_decorators n) then [label_proc_decorator] else [])
     @ (if skip_data_decorator \<in> set (proc_decorators n) then [skip_data_decorator] else [])"
  by (auto simp: rearrange_proc_decorator_def Let_def set_top_decorator_def fold_snoc
      remove1_append remove1_idem)

lemma filter_others_remove1:
  "filter (\<lambda>d. d \<noteq> label_proc_decorator \<and> d \<noteq> skip_data_decorator)
     (remove1 skip_data_decorator (remove1 label_proc_decorator ds)) =
   filter (\<lambda>d. d \<noteq> label_proc_decorator \<and> d \<noteq> skip_data_decorator) ds"
  by (simp add: filter_remove1 remove1_idem)

lemma distinct_remove1_others:
  "distinct ds \<Longrightarrow>
   remove1 skip_data_decorator (remove1 label_proc_decorator ds) =
   filter (\<lambda>d. d \<noteq> label_proc_decorator \<and> d \<noteq> skip_data_decorator) ds"
  by (induction ds) (auto simp: remove1_idem)

lemma proc_data_f_setup:
  "proc_data_f (setup_decorators n) =
     fold Wrapped (proc_decorators (rearrange_proc_decorator n)) (proc_data_f n)"
  by (simp add: setup_decorators_def Let_def rearrange_proc_decorator_def)

text \<open>
  C8: after \<^verbatim>\<open>_setup_decorators\<close>, for any registration list \<open>ds\<close>, the process
  decorators are \<open>others @ tops\<close>, where \<open>tops\<close> is the label decorator (when registered)
  followed by the skip decorator (when registered), and the composed \<^verbatim>\<open>_proc_data\<close> is
  \<open>tops\<close> applied around \<open>others\<close> applied around the undecorated function: label and skip
  are outermost. The decorators other than these two stand in \<open>others\<close> in registration
  order, and when no decorator was registered twice \<open>others\<close> holds nothing else.
\<close>

theorem C8_label_skip_outermost:
  "(let ds = proc_decorators n;
        others = remove1 skip_data_decorator (remove1 label_proc_decorator ds);
        tops = (if label_proc_decorator \<in> set ds then [label_proc_decorator] else [])
             @ (if skip_data_decorator \<in> set ds then [skip_data_decorator] else [])
    in proc_decorators (setup_decorators n) = others @ tops
     \<and> proc_data_f (setup_decorators n) = fold Wrapped tops (fold Wrapped others (proc_data_f n))
     \<and> filter (\<lambda>d. d \<noteq> label_proc_decorator \<and> d \<noteq> skip_data_decorator) others
         = filter (\<lambda>d. d \<noteq> label_proc_decorator \<and> d \<noteq> skip_data_decorator) ds
     \<and> (distinct ds \<longrightarrow>
           others = filter (\<lambda>d. d \<noteq> label_proc_decorator \<and> d \<noteq> skip_data_decorator) ds))"
proof -
  have "proc_decorators (setup_decorators n) = proc_decorators (rearrange_proc_decorator n)"
    by (simp add: setup_decorators_def Let_def)
  then show ?thesis
    unfolding Let_def
    using proc_decorators_rearrange [of n] filter_others_remove1 [of "proc_decorators n"]
      distinct_remove1_others [of "proc_decorators n"] proc_data_f_setup [of n]
    by simp
qed

theorem C8_label_skip_outermost_witness:
  "proc_data_f (setup_decorators
      (add_proc_decorator (Decorator 2) (add_proc_decorator label_proc_decorator
        (add_proc_decorator (Decorator 1) (add_proc_decorator skip_data_decorator
          (Node_init Map.empty ''f'' default_criteria None None False False None))))))
   = Wrapped skip_data_decorator (Wrapped label_proc_decorator
       (Wrapped (Decorator 2) (Wrapped (Decorator 1) Undecorated)))"
  using C8_label_skip_outermost [of "add_proc_decorator (Decorator 2)
      (add_proc_decorator label_proc_decorator
        (add_proc_decorator (Decorator 1) (add_proc_decorator skip_data_decorator
          (Node_init Map.empty ''f'' default_criteria None None False False None))))"]
  by (simp add: Let_def add_proc_decorator_def Node_init_def)

section \<open>Routing of results\<close>






section \<open>Retry and conversion of failures\<close>







section \<open>The stop token in the worker loop\<close>

lemma stop_token_iteration:
  assumes "is_start (h self)"
    and "int (length (executing_data_queue (h self))) < worker_num (h self)"
    and "get_data_generator (h self) = Some (Suspended [])"
    and "src_queue (h self) = PExc StopIteration # q"
    and "get_one_data_s st = get_one_data"
  shows "func_wrapper_iteration st self h =
    (Error_logged RuntimeError False,
     h(self := (h self)\<lparr>src_queue := q, get_data_generator := Some Finished\<rparr>))"
  using assms
  by (simp add: func_wrapper_iteration_def Let_def next_get_data.simps [of _ "h self"]
      get_one_data_def generator_raise_def handler_def)

lemma finished_generator_iteration:
  assumes "is_start (h self)"
    and "int (length (executing_data_queue (h self))) < worker_num (h self)"
    and "get_data_generator (h self) = Some Finished"
  shows "func_wrapper_iteration st self h = (Stopped, h)"
  using assms
  by (simp add: func_wrapper_iteration_def Let_def next_get_data.simps [of _ "h self"]
      handler_def)

lemma started_node_fields:
  "is_start (started_node w)" "executing_data_queue (started_node w) = []"
  "get_data_generator (started_node w) = Some (Suspended [])"
  "src_queue (started_node w) = []"
  "w \<noteq> 0 \<Longrightarrow> worker_num (started_node w) = w"
  "tasks (started_node w) = map spawn (py_range (worker_num (started_node w)))"
  by (simp_all add: started_node_def start_def validate_destinations_def Node_init_def Let_def
      setup_decorators_def rearrange_proc_decorator_def spawn_workers_def fold_spawn
      set_top_decorator_def truthy_def)

text \<open>
  C4 does not hold of the code. \<^verbatim>\<open>_get_one_data\<close> raises \<^verbatim>\<open>StopIteration\<close> inside a
  generator, which reaches the worker as \<^verbatim>\<open>RuntimeError\<close>: the worker that takes the
  stop token from the queue goes through the handler \<^verbatim>\<open>except Exception\<close> (error log,
  "Not get data") and stays in its loop. The generator is finished from then on, so the
  next pass of any worker gets \<^verbatim>\<open>StopIteration\<close> from \<^verbatim>\<open>next\<close> and breaks, without
  taking a stop token. Shown here for a started node with one worker whose queue holds
  one stop token.
\<close>

theorem C4_stop_token_is_logged_as_error:
  "(let st = undecorated ''f'' (\<lambda>e. ''trace'') (\<lambda>k. 0) (\<lambda>k d. Inr d);
        h0 = put 0 (PExc StopIteration) (\<lambda>r. started_node 1);
        (out1, h1) = func_wrapper_iteration st 0 h0;
        (out2, h2) = func_wrapper_iteration st 0 h1
    in out1 = Error_logged RuntimeError False
     \<and> get_data_generator (h1 0) = Some Finished
     \<and> out2 = Stopped)"
proof -
  let ?st = "undecorated ''f'' (\<lambda>e. ''trace'') (\<lambda>k. 0) (\<lambda>k d. Inr d)"
  let ?h0 = "put 0 (PExc StopIteration) (\<lambda>r. started_node 1)"
  let ?h1 = "?h0(0 := (?h0 0)\<lparr>src_queue := [], get_data_generator := Some Finished\<rparr>)"
  have 1: "func_wrapper_iteration ?st 0 ?h0 = (Error_logged RuntimeError False, ?h1)"
    by (rule stop_token_iteration) (simp_all add: put_def started_node_fields undecorated_def)
  have 2: "func_wrapper_iteration ?st 0 ?h1 = (Stopped, ?h1)"
    by (rule finished_generator_iteration) (simp_all add: put_def started_node_fields)
  show ?thesis
    unfolding Let_def 1 2 prod.case by simp
qed

section \<open>The put stage under the greenlet steps\<close>

text \<open>
  \<open>put_data\<close> is what the guarded steps of a worker in its put stage compute: when the
  destinations still to visit are distinct nodes and none of their queues is full, the
  worker's steps lead to the heap that the fold of \<open>put_data\<close> gives, with no
  suspension on the way.
\<close>

lemma set_pc_same: "pcs w r k = c \<Longrightarrow> set_pc r k c w = w"
proof -
  assume "pcs w r k = c"
  then have "(pcs w r)(k := c) = pcs w r" by (simp add: fun_upd_idem)
  then show ?thesis by (simp add: set_pc_def)
qed

lemma put_data_steps_aux:
  assumes "alive w r k" and "pcs w r k = In_put data result ds" and "distinct ds"
    and "\<forall>d \<in> set ds. \<not> queue_full (nodes w d)"
  shows "(step proc_data self)\<^sup>*\<^sup>* w
     (set_pc r k (In_put data result [])
        (w\<lparr>nodes := fold (\<lambda>node h. if criteria (h node) r result then put node result h else h)
                        ds (nodes w)\<rparr>))"
  using assms
proof (induction ds arbitrary: w)
  case Nil
  then show ?case by (simp add: set_pc_same)
next
  case (Cons node rest)
  show ?case
  proof (cases "criteria (nodes w node) r result")
    case False
    let ?w1 = "set_pc r k (In_put data result rest) w"
    have s: "step proc_data self w ?w1"
      using Cons.prems False by (auto intro: step.w_put_skip)
    have "(step proc_data self)\<^sup>*\<^sup>* ?w1
       (set_pc r k (In_put data result [])
        (?w1\<lparr>nodes := fold (\<lambda>node h. if criteria (h node) r result then put node result h else h)
                        rest (nodes ?w1)\<rparr>))"
      using Cons.prems by (intro Cons.IH) (simp_all add: set_pc_def alive_def)
    moreover have "set_pc r k (In_put data result [])
        (?w1\<lparr>nodes := fold (\<lambda>node h. if criteria (h node) r result then put node result h else h)
                        rest (nodes ?w1)\<rparr>)
      = set_pc r k (In_put data result [])
        (w\<lparr>nodes := fold (\<lambda>node h. if criteria (h node) r result then put node result h else h)
                        (node # rest) (nodes w)\<rparr>)"
      using False by (simp add: set_pc_def)
    ultimately show ?thesis using s by (simp only: converse_rtranclp_into_rtranclp)
  next
    case True
    let ?w1 = "set_pc r k (In_put data result rest) (w\<lparr>nodes := put node result (nodes w)\<rparr>)"
    have s: "step proc_data self w ?w1"
      using Cons.prems True by (auto intro: step.w_put)
    have "(step proc_data self)\<^sup>*\<^sup>* ?w1
       (set_pc r k (In_put data result [])
        (?w1\<lparr>nodes := fold (\<lambda>node h. if criteria (h node) r result then put node result h else h)
                        rest (nodes ?w1)\<rparr>))"
    proof (rule Cons.IH)
      show "alive ?w1 r k"
        using Cons.prems(1) by (cases "r = node") (simp_all add: set_pc_def alive_def put_def)
      show "pcs ?w1 r k = In_put data result rest" by (simp add: set_pc_def)
      show "distinct rest" using Cons.prems(3) by simp
      have "nodes ?w1 d = nodes w d" if "d \<in> set rest" for d
        using that Cons.prems(3) by (cases "d = node") (simp_all add: set_pc_def put_def)
      then show "\<forall>d \<in> set rest. \<not> queue_full (nodes ?w1 d)"
        using Cons.prems(4) by simp
    qed
    moreover have "set_pc r k (In_put data result [])
        (?w1\<lparr>nodes := fold (\<lambda>node h. if criteria (h node) r result then put node result h else h)
                        rest (nodes ?w1)\<rparr>)
      = set_pc r k (In_put data result [])
        (w\<lparr>nodes := fold (\<lambda>node h. if criteria (h node) r result then put node result h else h)
                        (node # rest) (nodes w)\<rparr>)"
      using True by (simp add: set_pc_def)
    ultimately show ?thesis using s by (simp only: converse_rtranclp_into_rtranclp)
  qed
qed

lemma put_data_steps:
  assumes "alive w r k" and "pcs w r k = In_put data result (dict_values (dst_nodes (nodes w r)))"
    and "distinct (dict_values (dst_nodes (nodes w r)))"
    and "\<forall>d \<in> set (dict_values (dst_nodes (nodes w r))). \<not> queue_full (nodes w d)"
  shows "(step proc_data self)\<^sup>*\<^sup>* w
     (set_pc r k (In_put data result []) (w\<lparr>nodes := put_data r result (nodes w)\<rparr>))"
  using put_data_steps_aux [OF assms(1) assms(2) assms(3) assms(4)] by (simp add: put_data_def)

section \<open>\<^verbatim>\<open>Node.end\<close>\<close>

lemma count_stop_Cons:
  "count_list (x # xs) (PExc StopIteration)
     = (if x = PExc StopIteration then 1 else 0) + count_list xs (PExc StopIteration)"
  by simp

lemma next_get_data_facts:
  "next_get_data get_one_data n = (res, n') \<Longrightarrow>
     stop_tokens n \<le> stop_tokens n' \<and> length (src_queue n') \<le> length (src_queue n)
     \<and> worker_num n' = worker_num n \<and> queue_size n' = queue_size n \<and> tasks n' = tasks n"
proof (induction "get_one_data" n arbitrary: res n' rule: next_get_data.induct)
  case (1 n)
  show ?case
  proof (cases "get_data_generator n")
    case None
    with "1.prems" show ?thesis
      by (subst (asm) next_get_data.simps) simp
  next
    case (Some g)
    show ?thesis
    proof (cases g)
      case Finished
      with Some "1.prems" show ?thesis
        by (subst (asm) next_get_data.simps) simp
    next
      case (Suspended ds)
      show ?thesis
      proof (cases ds)
        case (Cons d ds')
        with Some Suspended "1.prems" show ?thesis
          by (subst (asm) next_get_data.simps) (auto simp: stop_tokens_def)
      next
        case Nil
        show ?thesis
        proof (cases "is_start n")
          case False
          with Some Suspended Nil "1.prems" show ?thesis
            by (subst (asm) next_get_data.simps) (auto simp: stop_tokens_def)
        next
          case True
          show ?thesis
          proof (cases "src_queue n")
            case Nil
            with Some Suspended \<open>ds = []\<close> True "1.prems" show ?thesis
              by (subst (asm) next_get_data.simps) simp
          next
            case (Cons data q)
            show ?thesis
            proof (cases "get_one_data n data")
              case (Inl e)
              with Some Suspended \<open>ds = []\<close> True Cons "1.prems" show ?thesis
                by (subst (asm) next_get_data.simps) (auto simp: stop_tokens_def)
            next
              case (Inr ys)
              let ?n1 = "n\<lparr>src_queue := q, get_data_generator := Some (Suspended ys)\<rparr>"
              have nd: "data \<noteq> PExc StopIteration"
                using Inr by (auto simp: get_one_data_def)
              have rec: "next_get_data get_one_data ?n1 = (res, n')"
                using Some Suspended \<open>ds = []\<close> True Cons Inr "1.prems"
                by (subst (asm) next_get_data.simps) simp
              note ih = "1.hyps" [OF Some Suspended \<open>ds = []\<close> _ Cons Inr rec]
              have "stop_tokens n \<le> stop_tokens ?n1"
                using Some Suspended Cons nd by (simp add: stop_tokens_def)
              then show ?thesis
                using ih True Cons by simp
            qed
          qed
        qed
      qed
    qed
  qed
qed


lemma end_inv_set_pc [simp]: "end_inv self W C (set_pc r k c w) = end_inv self W C w"
  by (simp add: end_inv_def set_pc_def)

lemma end_inv_kill [simp]: "end_inv self W C (kill r k w) = end_inv self W C w"
  by (simp add: end_inv_def kill_def set_pc_def set_node_def stop_tokens_def)

lemma end_inv_set_node:
  assumes "end_inv self W C w"
    and "stop_tokens (nodes w r) \<le> stop_tokens n'"
    and "length (src_queue n') \<le> length (src_queue (nodes w r))"
    and "worker_num n' = worker_num (nodes w r)" "queue_size n' = queue_size (nodes w r)"
  shows "end_inv self W C (set_node r n' w)"
  using assms by (auto simp: end_inv_def set_node_def)

lemma end_inv_fetched:
  assumes "end_inv self W C w"
  shows "end_inv self W C (fetched r k (next_get_data get_one_data (nodes w r)) w)"
proof -
  obtain res n' where r: "next_get_data get_one_data (nodes w r) = (res, n')"
    by (cases "next_get_data get_one_data (nodes w r)")
  note f = next_get_data_facts [OF r]
  have a: "end_inv self W C (set_node r n' w)"
    using assms f by (intro end_inv_set_node) simp_all
  have b: "end_inv self W C
      (set_node r (n'\<lparr>executing_data_queue := executing_data_queue n' @ [d]\<rparr>) w)" for d
    using assms f by (intro end_inv_set_node) (simp_all add: stop_tokens_def)
  show ?thesis
    unfolding r fetched_def using assms a b by (cases res) simp_all
qed

lemma end_inv_put:
  assumes "end_inv self W C w" and "\<not> queue_full (nodes w d)" and "0 < C"
  shows "end_inv self W C (w\<lparr>nodes := put d x (nodes w)\<rparr>)"
  using assms by (auto simp: end_inv_def put_def queue_full_def stop_tokens_def)

lemma stop_tokens_le: "stop_tokens n \<le> length (src_queue n) + 1"
  using count_le_length [of "src_queue n" "PExc StopIteration"]
  by (simp add: stop_tokens_def)

lemma end_inv_in_loop:
  assumes "end_inv self W C w" and "C + 1 < W"
  shows "\<exists>j. ender w = End_put j \<and> 0 < j \<and> nat W - j \<le> nat C + 1"
proof -
  from assms(1) obtain j where
    j: "ender w = End_put j" "j \<le> nat W" "nat W - j \<le> stop_tokens (nodes w self)"
    and len: "int (length (src_queue (nodes w self))) \<le> C"
    by (auto simp: end_inv_def)
  have "stop_tokens (nodes w self) \<le> nat C + 1"
    using stop_tokens_le [of "nodes w self"] len by linarith
  then have "nat W - j \<le> nat C + 1"
    using j by linarith
  moreover have "0 < j"
    using \<open>nat W - j \<le> nat C + 1\<close> assms(2) len by linarith
  ultimately show ?thesis
    using j by blast
qed

lemma step_end_inv:
  assumes "step proc_data self w w'" and "end_inv self W C w" and "0 < C" and "C + 1 < W"
  shows "end_inv self W C w'"
  using assms(1)
proof (cases rule: step.cases)
  case (e_put j)
  have "end_inv self W C (w\<lparr>nodes := put self (PExc StopIteration) (nodes w)\<rparr>)"
    using assms e_put by (intro end_inv_put) simp_all
  then show ?thesis
    using assms(2) e_put
    by (auto simp: end_inv_def put_def stop_tokens_def)
next
  case e_loop_done
  then show ?thesis
    using end_inv_in_loop [OF assms(2,4)] by simp
next
  case e_join
  then show ?thesis
    using assms(2) by (simp add: end_inv_def)
next
  case (w_put r k data result node rest)
  then show ?thesis
    using assms by (simp add: end_inv_put)
next
  case (w_put_done r k data result)
  have "end_inv self W C
      (set_node r ((nodes w r)\<lparr>executing_data_queue :=
                      remove1 data (executing_data_queue (nodes w r))\<rparr>) w)"
    using assms(2) by (intro end_inv_set_node) (simp_all add: stop_tokens_def)
  then show ?thesis
    using w_put_done by (simp add: remove_executing_def set_node_def)
qed (use assms(2) in \<open>simp_all add: end_inv_fetched\<close>)

lemma steps_end_inv:
  assumes "(step proc_data self)\<^sup>*\<^sup>* w w'" and "end_inv self W C w" and "0 < C" and "C + 1 < W"
  shows "end_inv self W C w'"
  using assms by (induction rule: rtranclp_induct) (auto intro: step_end_inv)

lemma list_all_dead_update:
  "list_all dead ts \<Longrightarrow> list_all dead (ts[k := Greenlet i True])"
  by (induction ts arbitrary: k) (auto split: nat.splits)

lemma joined_set_pc [simp]: "joined self (set_pc r k c w) = joined self w"
  by (simp add: joined_def set_pc_def)

lemma joined_kill: "joined self w \<Longrightarrow> joined self (kill r k w)"
  by (auto simp: joined_def kill_def set_pc_def set_node_def list_all_dead_update)

lemma joined_set_node:
  "joined self w \<Longrightarrow> tasks n' = tasks (nodes w r) \<Longrightarrow> joined self (set_node r n' w)"
  by (auto simp: joined_def set_node_def)

lemma joined_fetched:
  assumes "joined self w"
  shows "joined self (fetched r k (next_get_data get_one_data (nodes w r)) w)"
proof -
  obtain res n' where r: "next_get_data get_one_data (nodes w r) = (res, n')"
    by (cases "next_get_data get_one_data (nodes w r)")
  note f = next_get_data_facts [OF r]
  have a: "joined self (set_node r n' w)"
    using assms f by (intro joined_set_node) simp_all
  have b: "joined self
      (set_node r (n'\<lparr>executing_data_queue := executing_data_queue n' @ [d]\<rparr>) w)" for d
    using assms f by (intro joined_set_node) simp_all
  show ?thesis
    unfolding r fetched_def using assms a b by (cases res) (simp_all add: joined_kill)
qed

lemma step_joined:
  assumes "step proc_data self w w'" and "joined self w"
  shows "joined self w'"
  using assms(1)
proof (cases rule: step.cases)
  case (w_exit r k)
  then show ?thesis using assms(2) by (simp add: joined_kill)
next
  case (e_join)
  then show ?thesis by (simp add: joined_def list_all_iff)
next
  case (w_put r k data result node rest)
  then show ?thesis using assms(2) by (auto simp: joined_def put_def set_pc_def)
next
  case (w_put_done r k data result)
  then show ?thesis using assms(2) by (auto simp: joined_def remove_executing_def set_pc_def)
next
  case (e_put j)
  then show ?thesis by (simp add: joined_def)
next
  case e_loop_done
  then show ?thesis by (simp add: joined_def)
qed (use assms(2) in \<open>simp_all add: joined_fetched\<close>)

lemma end_returns_after_workers_dead:
  assumes "(step proc_data self)\<^sup>*\<^sup>* (end_call self w) w'" and "ender w' = End_returned"
  shows "list_all dead (tasks (nodes w' self))"
proof -
  have j0: "joined self (end_call self w)"
    by (simp add: joined_def end_call_def Let_def)
  from assms(1) j0 have "joined self w'"
    by (induction rule: rtranclp_induct) (auto intro: step_joined)
  then show ?thesis
    using assms(2) by (simp add: joined_def)
qed

lemma blocked_end_reachable:
  "(step proc_data 0)\<^sup>*\<^sup>* (end_call 0 small_queue_world) blocked_end_3"
proof -
  have e0: "ender blocked_end_0 = End_put (Suc 2)" by code_simp
  have q0: "\<not> queue_full (nodes blocked_end_0 0)" by code_simp
  have s1: "step proc_data 0 blocked_end_0 blocked_end_1"
    unfolding blocked_end_1_def by (rule step.e_put [OF e0 q0])
  have a1: "alive blocked_end_1 0 0" by code_simp
  have p1: "pcs blocked_end_1 0 0 = At_top" by code_simp
  have i1: "is_start (nodes blocked_end_1 0)" by code_simp
  have x1: "int (length (executing_data_queue (nodes blocked_end_1 0)))
              < worker_num (nodes blocked_end_1 0)" by code_simp
  have l1: "lock_free blocked_end_1 0" by code_simp
  have s2: "step proc_data 0 blocked_end_1 blocked_end_2"
    unfolding blocked_end_2_def by (rule step.w_fetch [OF a1 p1 i1 x1 l1])
  have e2: "ender blocked_end_2 = End_put (Suc 1)" by code_simp
  have q2: "\<not> queue_full (nodes blocked_end_2 0)" by code_simp
  have s3: "step proc_data 0 blocked_end_2 blocked_end_3"
    unfolding blocked_end_3_def by (rule step.e_put [OF e2 q2])
  have "(step proc_data 0)\<^sup>*\<^sup>* blocked_end_0 blocked_end_1"
    using s1 by (rule r_into_rtranclp)
  then have "(step proc_data 0)\<^sup>*\<^sup>* blocked_end_0 blocked_end_2"
    using s2 by (rule rtranclp.rtrancl_into_rtrancl)
  then have "(step proc_data 0)\<^sup>*\<^sup>* blocked_end_0 blocked_end_3"
    using s3 by (rule rtranclp.rtrancl_into_rtrancl)
  then show ?thesis
    unfolding blocked_end_0_def .
qed

text \<open>
  C7 does not hold of the code. Let a node have a bounded queue (\<open>queue_size\<close> at least
  1) that is within its size, and more than \<open>queue_size + 1\<close> workers. Then in every
  state the greenlets can reach after \<^verbatim>\<open>end()\<close> is called, under any schedule, the
  caller is still inside its loop with at least one stop token left to put: it has put
  at most \<open>queue_size + 1\<close> tokens, fewer than \<open>worker_num\<close>, and it never reaches
  \<^verbatim>\<open>joinall\<close>, let alone returns. The reason is the one of C4: the first stop token taken
  from the queue finishes the generator, after which no worker takes anything, so the
  queue fills up and the next \<^verbatim>\<open>put\<close> suspends for ever. (That the caller can only
  return once every worker is dead holds: \<open>end_returns_after_workers_dead\<close>.)
\<close>

theorem C7_end_blocks_when_workers_exceed_queue:
  assumes "0 < queue_size (nodes w self)"
    and "queue_size (nodes w self) + 1 < worker_num (nodes w self)"
    and "int (length (src_queue (nodes w self))) \<le> queue_size (nodes w self)"
    and "(step proc_data self)\<^sup>*\<^sup>* (end_call self w) w'"
  shows "\<exists>j. ender w' = End_put j \<and> 0 < j
     \<and> nat (worker_num (nodes w self)) - j \<le> nat (queue_size (nodes w self)) + 1
     \<and> nat (queue_size (nodes w self)) + 1 < nat (worker_num (nodes w self))
     \<and> worker_num (nodes w' self) = worker_num (nodes w self)"
proof -
  let ?W = "worker_num (nodes w self)" and ?C = "queue_size (nodes w self)"
  have "end_inv self ?W ?C (end_call self w)"
    using assms(3) by (simp add: end_inv_def end_call_def super_end_def Let_def py_range_def)
  then have inv: "end_inv self ?W ?C w'"
    using assms by (intro steps_end_inv [OF assms(4)]) simp_all
  from end_inv_in_loop [OF inv assms(2)] obtain j where
    "ender w' = End_put j" "0 < j" "nat ?W - j \<le> nat ?C + 1"
    by blast
  moreover have "worker_num (nodes w' self) = ?W"
    using inv by (simp add: end_inv_def)
  moreover have "nat ?C + 1 < nat ?W"
    using assms(1,2) by linarith
  ultimately show ?thesis
    by blast
qed

theorem C7_end_blocks_when_workers_exceed_queue_witness:
  "(\<exists>j. ender blocked_end_3 = End_put j \<and> 0 < j)
   \<and> ender blocked_end_3 = End_put 1
   \<and> src_queue (nodes blocked_end_3 0) = [PExc StopIteration]
   \<and> queue_full (nodes blocked_end_3 0)
   \<and> get_data_generator (nodes blocked_end_3 0) = Some Finished
   \<and> pcs blocked_end_3 0 0 = At_top"
proof -
  have a: "0 < queue_size (nodes small_queue_world 0)" by code_simp
  have b: "queue_size (nodes small_queue_world 0) + 1 < worker_num (nodes small_queue_world 0)"
    by code_simp
  have c: "int (length (src_queue (nodes small_queue_world 0)))
             \<le> queue_size (nodes small_queue_world 0)" by code_simp
  from C7_end_blocks_when_workers_exceed_queue [OF a b c blocked_end_reachable]
  have 1: "\<exists>j. ender blocked_end_3 = End_put j \<and> 0 < j"
    by blast
  have 2: "ender blocked_end_3 = End_put 1" by code_simp
  have 3: "src_queue (nodes blocked_end_3 0) = [PExc StopIteration]" by code_simp
  have 4: "queue_full (nodes blocked_end_3 0)" by code_simp
  have 5: "get_data_generator (nodes blocked_end_3 0) = Some Finished" by code_simp
  have 6: "pcs blocked_end_3 0 0 = At_top" by code_simp
  show ?thesis
    by (intro conjI 1 2 3 4 5 6)
qed

section \<open>Topological sort\<close>

lemma count_in_degrees_Str:
  "count_in_degrees h (Str s # xs) acc =
     (if length s = 2 then Inl AttributeError else Inl ValueError)"
  by (cases acc) (simp add: unpack2_def attr_dst_nodes_def)

lemma topological_sort_nonempty:
  "topological_sort fuel get_neighbors h ((nm, r) # rest) =
     (if length nm = 2 then Some (Inl AttributeError) else Some (Inl ValueError))"
  by (simp add: topological_sort_def count_in_degrees_Str del: count_in_degrees.simps)

lemma topological_sort_one_char:
  "length nm \<noteq> 2 \<Longrightarrow>
   topological_sort fuel get_neighbors h ((nm, r) # rest) = Some (Inl ValueError)"
  by (simp add: topological_sort_nonempty)

text \<open>
  C2 does not hold of the code. The first loop of \<^verbatim>\<open>topological_sort\<close> iterates the
  dict \<^verbatim>\<open>all_nodes\<close> itself, so \<^verbatim>\<open>desc, node\<close> are unpacked from a key: for every
  mapping with at least one node the sort raises (\<^verbatim>\<open>ValueError\<close> for a name that is not
  two characters long, else \<^verbatim>\<open>AttributeError\<close>) and returns no order. Shown here for the
  graph of the single node \<^verbatim>\<open>a\<close> without destinations, which is acyclic.
\<close>

theorem C2_acyclic_graph_raises:
  "(let h = (\<lambda>r. Node_init Map.empty ''a'' default_criteria None None True False None);
        get_neighbors = (\<lambda>h r. map NodeRef (dict_values (dst_nodes (h r))));
        super_start = (\<lambda>sorted h. (None, h))
    in topological_sort 10 get_neighbors h [(''a'', 0)] = Some (Inl ValueError)
     \<and> Graph_start 10 get_neighbors super_start [(''a'', 0)] h = Some (Some ValueError, h))"
  by (simp add: Let_def Graph_start_def topological_sort_one_char)

section \<open>Scatter and gather\<close>

lemma all_tests_true:
  "list_all id (map f xs) \<Longrightarrow> map (PBool \<circ> f) xs = replicate (length xs) (PBool True)"
  by (induction xs) auto

lemma put_wrapper_forwards_tests:
  assumes "iterable_put_data_wrapper put_func label_data (p, s) = (e, p', s')"
  shows "s' = s \<or> (\<exists>original n label0.
            s' = put_func (LabelData (PTuple [original, PList (replicate n (PBool True))]) label0) s)"
  using assms
  by (auto simp: iterable_put_data_wrapper_def Let_def all_tests_true
      split: pyval.splits sum.splits if_splits)

text \<open>
  C1 does not hold of the code. For the input \<^verbatim>\<open>(1, 2, 3)\<close>, whose elements get the
  slots 0, 1, 2 and the results 10, 20, 30 (arriving in the order 20, 10, 30), nothing
  is forwarded after the first two results and one aggregate after the third, as
  claimed; but the aggregate pairs the input with \<^verbatim>\<open>[True, True, True]\<close>, the tests
  \<^verbatim>\<open>v is not None\<close> that the walrus expression bound, not with the results. (By
  \<open>put_wrapper_forwards_tests\<close> this is so for every input.)
\<close>

theorem C1_aggregate_holds_booleans:
  "(let generate_label = (\<lambda>d. d);
        data = PTuple [PInt 1, PInt 2, PInt 3];
        put_func = (\<lambda>d out. out @ [d]);
        (r, p) = iterable_get_data_wrapper generate_label (\<lambda>d. d) data \<lparr>processing_tasks = []\<rparr>;
        (l0, p) = get_label generate_label (PInt 1) data p;
        (l1, p) = get_label generate_label (PInt 2) data p;
        (l2, p) = get_label generate_label (PInt 3) data p;
        (e1, ps1) = iterable_put_data_wrapper put_func
                      (LabelData (PInt 20) (PTuple [data, PInt 1])) (p, []);
        (e2, ps2) = iterable_put_data_wrapper put_func
                      (LabelData (PInt 10) (PTuple [data, PInt 0])) ps1;
        (e3, ps3) = iterable_put_data_wrapper put_func
                      (LabelData (PInt 30) (PTuple [data, PInt 2])) ps2
    in [l0, l1, l2] = [Inr (PTuple [data, PInt 0]), Inr (PTuple [data, PInt 1]),
                       Inr (PTuple [data, PInt 2])]
     \<and> snd ps1 = [] \<and> snd ps2 = []
     \<and> snd ps3 = [LabelData (PTuple [data, PList [PBool True, PBool True, PBool True]]) data]
     \<and> snd ps3 \<noteq> [LabelData (PTuple [data, PList [PInt 10, PInt 20, PInt 30]]) data])"
  by code_simp

text \<open>
  C10: for an input whose iteration yields nothing, \<^verbatim>\<open>ProcessingTask(data)\<close> raises
  \<^verbatim>\<open>StopIteration\<close>; so does the get-decorator, leaving \<^verbatim>\<open>processing_tasks\<close> as it was
  and without calling the wrapped fetch function. When no task is registered under the
  input's label, a result carrying that label makes the put-decorator raise
  \<^verbatim>\<open>KeyError\<close> and forward nothing.
\<close>

theorem C10_empty_iterable_raises_StopIteration:
  assumes "py_iter data = Some []"
  shows "ProcessingTask_init generate_label data = Inl StopIteration
    \<and> iterable_get_data_wrapper generate_label get_func data p = (Inl StopIteration, p)
    \<and> (dict_getitem (processing_tasks p) (generate_label data) = Inl KeyError \<longrightarrow>
         iterable_put_data_wrapper put_func (LabelData content (PTuple [generate_label data, i]))
            (snd (iterable_get_data_wrapper generate_label get_func data p), s)
          = (Some KeyError, p, s))"
  using assms
  by (simp add: ProcessingTask_init_def iterable_get_data_wrapper_def iterable_put_data_wrapper_def
      get_data_func_label_def subscript_def Let_def)

theorem C10_empty_iterable_raises_StopIteration_witness:
  "py_iter (PTuple []) = Some []
   \<and> ProcessingTask_init (\<lambda>d. d) (PTuple []) = Inl StopIteration
   \<and> iterable_get_data_wrapper (\<lambda>d. d) (\<lambda>d. d) (PTuple []) \<lparr>processing_tasks = []\<rparr>
        = (Inl StopIteration, \<lparr>processing_tasks = []\<rparr>)
   \<and> iterable_put_data_wrapper (\<lambda>d out. out @ [d]) (LabelData (PInt 7) (PTuple [PTuple [], PInt 0]))
        (\<lparr>processing_tasks = []\<rparr>, [])
        = (Some KeyError, \<lparr>processing_tasks = []\<rparr>, [])"
  using C10_empty_iterable_raises_StopIteration [of "PTuple []" "\<lambda>d. d" "\<lambda>d. d"
      "\<lparr>processing_tasks = []\<rparr>" "\<lambda>d out. out @ [d]" "PInt 7" "PInt 0" "[]"]
  by (simp add: dict_getitem_def iterable_get_data_wrapper_def ProcessingTask_init_def)

section \<open>Precedence of the settings\<close>

text \<open>
  C9 as stated fails: an explicit argument \<^verbatim>\<open>0\<close> is falsy, so the configured value is used.
  Here \<^verbatim>\<open>Node(f, worker_num=0, queue_size=0, timeout=0)\<close> under the configuration
  \<^verbatim>\<open>{"worker_num": 4, "queue_size": 7, "timeout": 3}\<close>.
\<close>

theorem C9_explicit_zero_counterexample:
  "worker_num (Node_init (ASYNC_DFD_CONFIG (Some [''worker_num'' \<mapsto> 4, ''queue_size'' \<mapsto> 7, ''timeout'' \<mapsto> 3]))
      ''f'' default_criteria (Some 0) (Some 0) False False (Some 0)) = 4
   \<and> queue_size (Node_init (ASYNC_DFD_CONFIG (Some [''worker_num'' \<mapsto> 4, ''queue_size'' \<mapsto> 7, ''timeout'' \<mapsto> 3]))
      ''f'' default_criteria (Some 0) (Some 0) False False (Some 0)) = 7
   \<and> timeout (Node_init (ASYNC_DFD_CONFIG (Some [''worker_num'' \<mapsto> 4, ''queue_size'' \<mapsto> 7, ''timeout'' \<mapsto> 3]))
      ''f'' default_criteria (Some 0) (Some 0) False False (Some 0)) = Some 3"
  by (simp add: Node_init_def ASYNC_DFD_CONFIG_def truthy_def dict_get_def dict_get_None_def)

text \<open>
  C9, amended: an explicitly passed argument that is truthy (neither \<^verbatim>\<open>None\<close> nor
  \<^verbatim>\<open>0\<close>) is the effective value; otherwise the global configuration's value is, when
  the key is present; otherwise the built-in default (\<open>worker_num\<close> 10, \<open>queue_size\<close> 10,
  \<open>timeout\<close> absent). A missing configuration file gives the empty configuration, hence
  the built-in defaults, and construction always yields a node.
\<close>

theorem C9_configuration_precedence:
  "(let cfg = ASYNC_DFD_CONFIG src;
        n = Node_init cfg nm crit w q no it t
    in (\<forall>v. w = Some v \<and> v \<noteq> 0 \<longrightarrow> worker_num n = v)
     \<and> (\<forall>v. q = Some v \<and> v \<noteq> 0 \<longrightarrow> queue_size n = v)
     \<and> (\<forall>v. t = Some v \<and> v \<noteq> 0 \<longrightarrow> timeout n = Some v)
     \<and> (w = None \<or> w = Some 0 \<longrightarrow>
           worker_num n = (case cfg ''worker_num'' of Some c \<Rightarrow> c | None \<Rightarrow> 10))
     \<and> (q = None \<or> q = Some 0 \<longrightarrow>
           queue_size n = (case cfg ''queue_size'' of Some c \<Rightarrow> c | None \<Rightarrow> 10))
     \<and> (t = None \<or> t = Some 0 \<longrightarrow> timeout n = cfg ''timeout'')
     \<and> (src = None \<longrightarrow> cfg = Map.empty))"
  by (auto simp: Let_def Node_init_def ASYNC_DFD_CONFIG_def truthy_def dict_get_def
      dict_get_None_def split: option.splits)

theorem C9_configuration_precedence_witness:
  "worker_num (Node_init (ASYNC_DFD_CONFIG (Some [''worker_num'' \<mapsto> 4]))
      ''f'' default_criteria (Some 3) None False False None) = 3
   \<and> queue_size (Node_init (ASYNC_DFD_CONFIG (Some [''worker_num'' \<mapsto> 4]))
      ''f'' default_criteria (Some 3) None False False None) = 10
   \<and> timeout (Node_init (ASYNC_DFD_CONFIG (Some [''worker_num'' \<mapsto> 4]))
      ''f'' default_criteria (Some 3) None False False None) = None
   \<and> worker_num (Node_init (ASYNC_DFD_CONFIG (Some [''worker_num'' \<mapsto> 4]))
      ''f'' default_criteria None None False False None) = 4
   \<and> worker_num (Node_init (ASYNC_DFD_CONFIG None)
      ''f'' default_criteria None None False False None) = 10"
  using C9_configuration_precedence [of "Some [''worker_num'' \<mapsto> 4]" "''f''" default_criteria
      "Some 3" None False False None]
    C9_configuration_precedence [of "Some [''worker_num'' \<mapsto> 4]" "''f''" default_criteria
      None None False False None]
    C9_configuration_precedence [of None "''f''" default_criteria None None False False None]
  by (simp add: Let_def ASYNC_DFD_CONFIG_def)

end
